theory Spec2Isabelle
  imports Main
begin

section \<open>Data model\<close>

text \<open>
  The persisted row (class \<open>User\<close> of \<open>database.py\<close>), the parsed upstream payload
  (\<open>UpstreamUserData\<close> of \<open>models.py\<close>) and the outbound view (\<open>UserResponse\<close>).
  The three classes share attribute names, so each field carries a prefix:
  \<open>u_\<close> for the row, \<open>d_\<close> for the payload, \<open>r_\<close> for the response.

  Timestamps are integers counting microseconds (the resolution of Python's
  \<open>datetime\<close> and of the \<open>timestamptz\<close> column), so a \<open>timedelta\<close> is an integer
  too. The column \<open>company_name\<close> is nullable, hence an option; every other column
  is \<open>nullable=False\<close>. The payload's \<open>company\<close> is a dict; it is kept as an
  association list from keys to values, where \<open>None\<close> stands for a JSON \<open>null\<close>
  (values other than strings and \<open>null\<close> are outside the model).
  Strings are byte lists; the only string tests of the code are emptiness and two
  ASCII prefixes, which read the same on bytes and on code points.
\<close>

record User =
  u_id :: int
  u_name :: string
  u_username :: string
  u_email :: string
  u_website :: string
  u_company_name :: "string option"
  u_updated_at :: int

record UpstreamUserData =
  d_id :: int
  d_name :: string
  d_username :: string
  d_email :: string
  d_website :: string
  d_company :: "(string \<times> string option) list"

record UserResponse =
  r_name :: string
  r_username :: string
  r_email :: string
  r_website :: string
  r_companyName :: string

text \<open>
  Every exception the service can let escape: the four failures of
  \<open>fetch_from_upstream\<close> (the request itself, \<open>raise_for_status\<close>,
  \<open>response.json()\<close>, the pydantic constructor) and the two failures of a commit.
\<close>

datatype error =
    RequestError
  | HTTPStatusError
  | JSONDecodeError
  | ValidationError
  | IntegrityError
  | StaleDataError

text \<open>What the upstream server does when it is asked: the outcome of one GET.\<close>

datatype body = NotJson | WrongShape | UserJson UpstreamUserData

datatype http_result = NoResponse | Response nat body

text \<open>
  Everything a call reads from outside its arguments and the table:
  the configuration value \<open>CACHE_DURATION_MINUTES\<close> of \<open>config.py\<close>, the two readings of
  \<open>datetime.now(timezone.utc)\<close> (one inside \<open>is_cache_stale\<close>, one inside
  \<open>upsert_user\<close>), and the upstream server's answer.
\<close>

record env =
  CACHE_DURATION_MINUTES :: int
  now_is_cache_stale :: int
  now_upsert_user :: int
  http :: http_result

text \<open>
  The state the service changes: the rows of table \<open>users\<close>, and the number of GET
  requests sent to the upstream URL so far.
\<close>

record state =
  rows :: "User list"
  fetch_calls :: nat

section \<open>The table\<close>

text \<open>
  \<open>db.query(User).filter(User.id == i).first()\<close>, and the two writes a commit can
  flush. The table has a primary key on \<open>id\<close> and a unique constraint on
  \<open>username\<close> (\<open>database.py\<close>, and the migration); a write that breaks either raises
  \<open>IntegrityError\<close> and changes nothing. An UPDATE that matches no row makes the ORM
  raise \<open>StaleDataError\<close>.
\<close>

definition query_first :: "User list \<Rightarrow> int \<Rightarrow> User option" where
  "query_first rs i = find (\<lambda>v. u_id v = i) rs"

definition commit_insert :: "User list \<Rightarrow> User \<Rightarrow> error + User list" where
  "commit_insert rs u =
     (if list_ex (\<lambda>v. u_id v = u_id u) rs then Inl IntegrityError
      else if list_ex (\<lambda>v. u_username v = u_username u) rs then Inl IntegrityError
      else Inr (rs @ [u]))"

definition commit_update :: "User list \<Rightarrow> User \<Rightarrow> error + User list" where
  "commit_update rs u =
     (if \<not> list_ex (\<lambda>v. u_id v = u_id u) rs then Inl StaleDataError
      else if list_ex (\<lambda>v. u_id v \<noteq> u_id u \<and> u_username v = u_username u) rs
      then Inl IntegrityError
      else Inr (map (\<lambda>v. if u_id v = u_id u then u else v) rs))"

section \<open>The service\<close>

subsection \<open>Freshness\<close>

text \<open>
  \<open>timedelta(minutes=m)\<close> in microseconds. (The range limit of \<open>timedelta\<close> is not
  modelled.)
\<close>

definition timedelta_minutes :: "int \<Rightarrow> int" where
  "timedelta_minutes m = m * 60000000"

text \<open>
  \<open>UserService.is_cache_stale\<close>. A \<open>datetime\<close> is always truthy, so
  \<open>not updated_at\<close> holds exactly for \<open>None\<close>.
\<close>

definition is_cache_stale :: "env \<Rightarrow> int option \<Rightarrow> bool" where
  "is_cache_stale e updated_at =
     (case updated_at of
        None \<Rightarrow> True
      | Some t \<Rightarrow>
          (let now = now_is_cache_stale e;
               cache_duration = timedelta_minutes (CACHE_DURATION_MINUTES e)
           in now - t > cache_duration))"

subsection \<open>Normalization\<close>

definition startswith :: "string \<Rightarrow> string \<Rightarrow> bool" where
  "startswith s p = (take (length p) s = p)"

text \<open>\<open>UserService.normalize_website\<close>.\<close>

definition normalize_website :: "string \<Rightarrow> string" where
  "normalize_website website =
     (if website = [] then []
      else if startswith website ''http://'' \<or> startswith website ''https://'' then website
      else ''https://'' @ website)"

text \<open>
  \<open>user_data.company.get('name', '') if user_data.company else ''\<close>: an empty dict is
  falsy.
\<close>

definition company_name_of :: "(string \<times> string option) list \<Rightarrow> string option" where
  "company_name_of company =
     (if company = [] then Some []
      else (case map_of company ''name'' of None \<Rightarrow> Some [] | Some v \<Rightarrow> v))"

subsection \<open>Fetch\<close>

text \<open>
  \<open>UserService.fetch_from_upstream\<close>: one GET to the fixed URL (the method has no
  parameter), then \<open>raise_for_status\<close>, \<open>json()\<close> and the pydantic constructor, each of
  which may raise.
\<close>

definition is_success :: "nat \<Rightarrow> bool" where
  "is_success status = (200 \<le> status \<and> status < 300)"

definition fetch_from_upstream :: "env \<Rightarrow> state \<Rightarrow> (error + UpstreamUserData) \<times> state" where
  "fetch_from_upstream e s =
     (let s1 = s\<lparr>fetch_calls := Suc (fetch_calls s)\<rparr>
      in case http e of
           NoResponse \<Rightarrow> (Inl RequestError, s1)
         | Response status b \<Rightarrow>
             if \<not> is_success status then (Inl HTTPStatusError, s1)
             else (case b of
                     NotJson \<Rightarrow> (Inl JSONDecodeError, s1)
                   | WrongShape \<Rightarrow> (Inl ValidationError, s1)
                   | UserJson d \<Rightarrow> (Inr d, s1)))"

subsection \<open>Upsert\<close>

text \<open>The row that both branches of \<open>upsert_user\<close> write.\<close>

definition row_of :: "env \<Rightarrow> UpstreamUserData \<Rightarrow> User" where
  "row_of e user_data =
     \<lparr>u_id = d_id user_data,
      u_name = d_name user_data,
      u_username = d_username user_data,
      u_email = d_email user_data,
      u_website = normalize_website (d_website user_data),
      u_company_name = company_name_of (d_company user_data),
      u_updated_at = now_upsert_user e\<rparr>"

text \<open>
  \<open>UserService.upsert_user\<close> after its lookup: \<open>existing_user\<close> is what line 48 found,
  and the state is the table as it is when the write is committed. The update branch
  assigns every column but \<open>id\<close>, which keeps the value the lookup matched on.
  There is no \<open>try\<close> in the method: a failing commit raises to the caller.
\<close>

definition upsert_write ::
  "env \<Rightarrow> User option \<Rightarrow> state \<Rightarrow> UpstreamUserData \<Rightarrow> (error + User) \<times> state" where
  "upsert_write e existing_user s user_data =
     (case existing_user of
        Some existing \<Rightarrow>
          (let updated = (row_of e user_data)\<lparr>u_id := u_id existing\<rparr>
           in case commit_update (rows s) updated of
                Inl err \<Rightarrow> (Inl err, s)
              | Inr rs \<Rightarrow> (Inr updated, s\<lparr>rows := rs\<rparr>))
      | None \<Rightarrow>
          (let new_user = row_of e user_data
           in case commit_insert (rows s) new_user of
                Inl err \<Rightarrow> (Inl err, s)
              | Inr rs \<Rightarrow> (Inr new_user, s\<lparr>rows := rs\<rparr>)))"

text \<open>\<open>UserService.upsert_user\<close> with no other writer between lookup and commit.\<close>

definition upsert_user :: "env \<Rightarrow> state \<Rightarrow> UpstreamUserData \<Rightarrow> (error + User) \<times> state" where
  "upsert_user e s user_data =
     upsert_write e (query_first (rows s) (d_id user_data)) s user_data"

subsection \<open>Read and refresh\<close>

text \<open>The \<open>UserResponse(...)\<close> built at the end of both methods.\<close>

definition to_response :: "User \<Rightarrow> UserResponse" where
  "to_response user =
     \<lparr>r_name = u_name user,
      r_username = u_username user,
      r_email = u_email user,
      r_website = u_website user,
      r_companyName = (case u_company_name user of None \<Rightarrow> [] | Some c \<Rightarrow> c)\<rparr>"

text \<open>Lines 109 to 118 of \<open>get_user\<close>, which are also the body of \<open>refresh_user\<close>.\<close>

definition fetch_and_upsert :: "env \<Rightarrow> state \<Rightarrow> (error + UserResponse) \<times> state" where
  "fetch_and_upsert e s =
     (case fetch_from_upstream e s of
        (Inl err, s1) \<Rightarrow> (Inl err, s1)
      | (Inr upstream_data, s1) \<Rightarrow>
          (case upsert_user e s1 upstream_data of
             (Inl err, s2) \<Rightarrow> (Inl err, s2)
           | (Inr user, s2) \<Rightarrow> (Inr (to_response user), s2)))"

text \<open>
  \<open>UserService.get_user\<close>. The condition is evaluated left to right: the staleness
  check runs only for a row that exists.
\<close>

definition get_user :: "env \<Rightarrow> state \<Rightarrow> int \<Rightarrow> bool \<Rightarrow> (error + UserResponse) \<times> state" where
  "get_user e s user_id bypass_cache =
     (case query_first (rows s) user_id of
        None \<Rightarrow> fetch_and_upsert e s
      | Some user \<Rightarrow>
          if is_cache_stale e (Some (u_updated_at user)) \<or> bypass_cache
          then fetch_and_upsert e s
          else (Inr (to_response user), s))"

text \<open>\<open>UserService.refresh_user\<close>: the argument is not used.\<close>

definition refresh_user :: "env \<Rightarrow> state \<Rightarrow> int \<Rightarrow> (error + UserResponse) \<times> state" where
  "refresh_user e s user_id = fetch_and_upsert e s"

section \<open>Example inputs\<close>

text \<open>
  Concrete payloads, rows, environments and tables on which the theorems below are
  evaluated: a payload for id 1 in the shape of the upstream service's answer, an older
  stored row for id 1, a row for id 2 that already holds the payload's username, an
  environment whose two clock readings are \<open>n\<close> and \<open>n + 7\<close> with a TTL of ten minutes,
  and a table with no request sent yet.
\<close>

abbreviation payload1 :: UpstreamUserData where
  "payload1 \<equiv>
     \<lparr>d_id = 1, d_name = ''Leanne'', d_username = ''Bret'', d_email = ''l@april.biz'',
      d_website = ''hildegard.org'', d_company = [(''name'', Some ''Romaguera'')]\<rparr>"

abbreviation stored1 :: "int \<Rightarrow> User" where
  "stored1 t \<equiv>
     \<lparr>u_id = 1, u_name = ''Old'', u_username = ''Old1'', u_email = ''old@april.biz'',
      u_website = ''http://old.org'', u_company_name = None, u_updated_at = t\<rparr>"

abbreviation stored2 :: User where
  "stored2 \<equiv>
     \<lparr>u_id = 2, u_name = ''Other'', u_username = ''Bret'', u_email = ''o@april.biz'',
      u_website = ''https://other.org'', u_company_name = Some ''Deckow'', u_updated_at = 5\<rparr>"

abbreviation env_at :: "int \<Rightarrow> http_result \<Rightarrow> env" where
  "env_at n h \<equiv>
     \<lparr>CACHE_DURATION_MINUTES = 10, now_is_cache_stale = n, now_upsert_user = n + 7, http = h\<rparr>"

abbreviation table :: "User list \<Rightarrow> state" where
  "table rs \<equiv> \<lparr>rows = rs, fetch_calls = 0\<rparr>"

section \<open>Freshness evaluator\<close>

text \<open>
  C2. The staleness check answers true for an absent timestamp, and otherwise exactly
  when the clock reading minus the timestamp is strictly greater than the TTL: a row
  whose age equals the TTL is fresh, and a row older by any \<open>eps\<close> is stale exactly
  when \<open>eps\<close> is positive.
\<close>

theorem is_cache_stale_strict:
  "is_cache_stale e None
   \<and> is_cache_stale e (Some t)
       = (now_is_cache_stale e - t > timedelta_minutes (CACHE_DURATION_MINUTES e))
   \<and> is_cache_stale
        (e\<lparr>now_is_cache_stale := t0 + timedelta_minutes (CACHE_DURATION_MINUTES e)\<rparr>)
        (Some t0) = False
   \<and> is_cache_stale
        (e\<lparr>now_is_cache_stale := t0 + timedelta_minutes (CACHE_DURATION_MINUTES e) + eps\<rparr>)
        (Some t0) = (0 < eps)"
  by (simp add: is_cache_stale_def)

section \<open>Website normalization\<close>

lemma startswith_append: "startswith (p @ s) p"
  by (simp add: startswith_def)

text \<open>
  C6. Website normalization leaves a string that starts with \<open>http://\<close> or
  \<open>https://\<close> as it is, maps the empty string to the empty string, and prepends
  \<open>https://\<close> to every other string.
\<close>

theorem normalize_website_cases:
  "normalize_website website =
     (if startswith website ''http://'' \<or> startswith website ''https://'' then website
      else if website = [] then []
      else ''https://'' @ website)
   \<and> normalize_website ''example.com'' = ''https://example.com''
   \<and> normalize_website ''http://example.com'' = ''http://example.com''
   \<and> normalize_website [] = []"
  by (auto simp: normalize_website_def startswith_def)

text \<open>C8. Website normalization is idempotent.\<close>

theorem normalize_website_idem:
  "normalize_website (normalize_website x) = normalize_website x"
proof (cases "x = [] \<or> startswith x ''http://'' \<or> startswith x ''https://''")
  case True
  then show ?thesis by (auto simp: normalize_website_def)
next
  case False
  have "startswith (''https://'' @ x) ''https://''"
    by (rule startswith_append)
  with False show ?thesis by (simp add: normalize_website_def)
qed

section \<open>Read path\<close>

lemma fetch_from_upstream_state:
  "snd (fetch_from_upstream e s) = s\<lparr>fetch_calls := Suc (fetch_calls s)\<rparr>"
  by (simp add: fetch_from_upstream_def Let_def split: http_result.splits body.splits)

lemma upsert_write_fetch_calls:
  "fetch_calls (snd (upsert_write e ex s d)) = fetch_calls s"
  by (simp add: upsert_write_def Let_def split: option.splits sum.splits)

lemma upsert_user_fetch_calls:
  "fetch_calls (snd (upsert_user e s d)) = fetch_calls s"
  by (simp add: upsert_user_def upsert_write_fetch_calls)

lemma fetch_and_upsert_fetch_calls:
  "fetch_calls (snd (fetch_and_upsert e s)) = Suc (fetch_calls s)"
proof (cases "fetch_from_upstream e s")
  case (Pair r s1)
  with fetch_from_upstream_state [of e s]
  have s1: "s1 = s\<lparr>fetch_calls := Suc (fetch_calls s)\<rparr>" by simp
  show ?thesis
  proof (cases r)
    case (Inl err)
    with Pair s1 show ?thesis by (simp add: fetch_and_upsert_def)
  next
    case (Inr d)
    have "fetch_calls (snd (upsert_user e s1 d)) = Suc (fetch_calls s)"
      using s1 by (simp add: upsert_user_fetch_calls)
    with Pair Inr show ?thesis
      by (auto simp: fetch_and_upsert_def split: prod.splits sum.splits)
  qed
qed

lemma fetch_and_upsert_failure:
  assumes "fst (fetch_from_upstream e s) = Inl err"
  shows "fetch_and_upsert e s = (Inl err, s\<lparr>fetch_calls := Suc (fetch_calls s)\<rparr>)"
proof -
  have "fetch_from_upstream e s = (Inl err, s\<lparr>fetch_calls := Suc (fetch_calls s)\<rparr>)"
    using assms fetch_from_upstream_state [of e s] by (simp add: prod_eq_iff)
  then show ?thesis by (simp add: fetch_and_upsert_def)
qed

lemma fetch_and_upsert_success:
  assumes "http e = Response status (UserJson d)" and "is_success status"
  shows "fetch_and_upsert e s =
     (case upsert_user e (s\<lparr>fetch_calls := Suc (fetch_calls s)\<rparr>) d of
        (Inl err, s2) \<Rightarrow> (Inl err, s2)
      | (Inr user, s2) \<Rightarrow> (Inr (to_response user), s2))"
  using assms by (simp add: fetch_and_upsert_def fetch_from_upstream_def)



text \<open>
  C7. When the upstream fetch fails (no response, a status outside 2xx, a body that
  is not JSON or not of the expected shape), \<open>refresh_user\<close> fails with that error,
  \<open>get_user\<close> fails with it unless it answered from the stored row without fetching,
  and in every case the table is exactly as it was.
\<close>

theorem fetch_failure_writes_nothing:
  assumes "fst (fetch_from_upstream e s) = Inl err"
  shows "refresh_user e s user_id = (Inl err, s\<lparr>fetch_calls := Suc (fetch_calls s)\<rparr>)
       \<and> rows (snd (refresh_user e s user_id)) = rows s
       \<and> rows (snd (get_user e s user_id bypass_cache)) = rows s
       \<and> (get_user e s user_id bypass_cache = (Inl err, s\<lparr>fetch_calls := Suc (fetch_calls s)\<rparr>)
          \<or> fetch_calls (snd (get_user e s user_id bypass_cache)) = fetch_calls s)"
proof -
  note f = fetch_and_upsert_failure [OF assms]
  have r: "refresh_user e s user_id = (Inl err, s\<lparr>fetch_calls := Suc (fetch_calls s)\<rparr>)"
    using f by (simp add: refresh_user_def)
  have g: "get_user e s user_id bypass_cache = (Inl err, s\<lparr>fetch_calls := Suc (fetch_calls s)\<rparr>)
          \<or> (\<exists>user. get_user e s user_id bypass_cache = (Inr (to_response user), s))"
    using f by (auto simp: get_user_def split: option.splits)
  from r g show ?thesis by auto
qed

theorem fetch_failure_writes_nothing_witness:
  "fst (fetch_from_upstream (env_at 0 (Response 503 NotJson)) (table [stored1 0]))
     = Inl HTTPStatusError
   \<and> refresh_user (env_at 0 (Response 503 NotJson)) (table [stored1 0]) 1
       = (Inl HTTPStatusError, \<lparr>rows = [stored1 0], fetch_calls = 1\<rparr>)
   \<and> rows (snd (get_user (env_at 0 (Response 503 NotJson)) (table [stored1 0]) 1 True))
       = [stored1 0]
   \<and> fst (fetch_from_upstream (env_at 0 NoResponse) (table [])) = Inl RequestError
   \<and> rows (snd (get_user (env_at 0 NoResponse) (table []) 1 False)) = []
   \<and> fst (fetch_from_upstream (env_at 0 (Response 200 NotJson)) (table []))
       = Inl JSONDecodeError
   \<and> refresh_user (env_at 0 (Response 200 NotJson)) (table []) 1
       = (Inl JSONDecodeError, \<lparr>rows = [], fetch_calls = 1\<rparr>)"
proof -
  have h1: "fst (fetch_from_upstream (env_at 0 (Response 503 NotJson)) (table [stored1 0]))
     = Inl HTTPStatusError"
    by (simp add: fetch_from_upstream_def is_success_def)
  have h2: "fst (fetch_from_upstream (env_at 0 NoResponse) (table [])) = Inl RequestError"
    by (simp add: fetch_from_upstream_def)
  have h3: "fst (fetch_from_upstream (env_at 0 (Response 200 NotJson)) (table []))
       = Inl JSONDecodeError"
    by (simp add: fetch_from_upstream_def is_success_def)
  from h1 h2 h3
    fetch_failure_writes_nothing [OF h1, of 1 True]
    fetch_failure_writes_nothing [OF h2, of 1 False]
    fetch_failure_writes_nothing [OF h3, of 1 False]
  show ?thesis by simp
qed

section \<open>Upsert\<close>

lemma query_first_Some_id: "query_first rs i = Some u \<Longrightarrow> u_id u = i"
  by (auto simp: query_first_def find_Some_iff)

lemma query_first_None_iff: "(query_first rs i = None) = (\<not> list_ex (\<lambda>v. u_id v = i) rs)"
  by (auto simp: query_first_def find_None_iff list_ex_iff)

lemma query_first_replace_other:
  "i \<noteq> u_id u \<Longrightarrow>
   query_first (map (\<lambda>v. if u_id v = u_id u then u else v) rs) i = query_first rs i"
  by (induction rs) (auto simp: query_first_def)

lemma query_first_replace_same:
  "query_first rs (u_id u) = Some w \<Longrightarrow>
   query_first (map (\<lambda>v. if u_id v = u_id u then u else v) rs) (u_id u) = Some u"
  by (induction rs) (auto simp: query_first_def split: if_splits)

lemma query_first_replace:
  "query_first rs (u_id u) = Some w \<Longrightarrow>
   query_first (map (\<lambda>v. if u_id v = u_id u then u else v) rs) i
     = (if i = u_id u then Some u else query_first rs i)"
  by (simp add: query_first_replace_other query_first_replace_same)

lemma query_first_append:
  "query_first rs (u_id u) = None \<Longrightarrow>
   query_first (rs @ [u]) i = (if i = u_id u then Some u else query_first rs i)"
  by (induction rs) (auto simp: query_first_def split: if_splits)

lemma username_free_insert:
  "query_first rs i = None \<Longrightarrow>
   list_ex (\<lambda>v. u_username v = n) rs = list_ex (\<lambda>v. u_id v \<noteq> i \<and> u_username v = n) rs"
  by (auto simp: query_first_None_iff list_ex_iff)

lemma upsert_user_ok:
  assumes "\<not> list_ex (\<lambda>v. u_id v \<noteq> d_id d \<and> u_username v = d_username d) (rows s)"
  shows "upsert_user e s d =
     (Inr (row_of e d),
      s\<lparr>rows := (case query_first (rows s) (d_id d) of
                   Some existing \<Rightarrow>
                     map (\<lambda>v. if u_id v = d_id d then row_of e d else v) (rows s)
                 | None \<Rightarrow> rows s @ [row_of e d])\<rparr>)"
proof (cases "query_first (rows s) (d_id d)")
  case None
  have idr: "u_id (row_of e d) = d_id d" and nr: "u_username (row_of e d) = d_username d"
    by (simp_all add: row_of_def)
  have "\<not> list_ex (\<lambda>v. u_id v = d_id d) (rows s)"
    using None by (simp add: query_first_None_iff)
  moreover have "\<not> list_ex (\<lambda>v. u_username v = d_username d) (rows s)"
    using assms username_free_insert [OF None] by simp
  ultimately have "commit_insert (rows s) (row_of e d) = Inr (rows s @ [row_of e d])"
    by (simp add: commit_insert_def idr nr)
  with None show ?thesis
    by (simp add: upsert_user_def upsert_write_def Let_def)
next
  case (Some existing)
  have ide: "u_id existing = d_id d"
    using Some by (rule query_first_Some_id)
  have upd: "(row_of e d)\<lparr>u_id := u_id existing\<rparr> = row_of e d"
    by (simp add: row_of_def ide)
  have idr: "u_id (row_of e d) = d_id d" and nr: "u_username (row_of e d) = d_username d"
    by (simp_all add: row_of_def)
  have "list_ex (\<lambda>v. u_id v = d_id d) (rows s)"
    using Some query_first_None_iff [of "rows s" "d_id d"] by simp
  with assms have "commit_update (rows s) (row_of e d)
      = Inr (map (\<lambda>v. if u_id v = d_id d then row_of e d else v) (rows s))"
    by (simp add: commit_update_def idr nr)
  with Some upd show ?thesis
    by (simp add: upsert_user_def upsert_write_def Let_def)
qed

lemma upsert_user_lookup:
  assumes "\<not> list_ex (\<lambda>v. u_id v \<noteq> d_id d \<and> u_username v = d_username d) (rows s)"
  shows "query_first (rows (snd (upsert_user e s d))) i
           = (if i = d_id d then Some (row_of e d) else query_first (rows s) i)"
proof (cases "query_first (rows s) (d_id d)")
  case None
  then have "query_first (rows s) (u_id (row_of e d)) = None" by (simp add: row_of_def)
  from query_first_append [OF this, of i] None show ?thesis
    by (simp add: upsert_user_ok [OF assms] row_of_def)
next
  case (Some w)
  then have "query_first (rows s) (u_id (row_of e d)) = Some w" by (simp add: row_of_def)
  from query_first_replace [OF this, of i] Some show ?thesis
    by (simp add: upsert_user_ok [OF assms] row_of_def)
qed

lemma upsert_user_conflict:
  assumes "list_ex (\<lambda>v. u_id v \<noteq> d_id d \<and> u_username v = d_username d) (rows s)"
  shows "upsert_user e s d = (Inl IntegrityError, s)"
proof (cases "query_first (rows s) (d_id d)")
  case None
  have "list_ex (\<lambda>v. u_username v = u_username (row_of e d)) (rows s)"
    using assms by (auto simp: list_ex_iff row_of_def)
  then have "commit_insert (rows s) (row_of e d) = Inl IntegrityError"
    by (simp add: commit_insert_def)
  with None show ?thesis
    by (simp add: upsert_user_def upsert_write_def Let_def)
next
  case (Some existing)
  have ide: "u_id existing = d_id d"
    using Some by (rule query_first_Some_id)
  have upd: "(row_of e d)\<lparr>u_id := u_id existing\<rparr> = row_of e d"
    by (simp add: row_of_def ide)
  have "list_ex (\<lambda>v. u_id v = d_id d) (rows s)"
    using Some query_first_None_iff [of "rows s" "d_id d"] by simp
  with assms have "commit_update (rows s) (row_of e d) = Inl IntegrityError"
    by (simp add: commit_update_def row_of_def)
  with Some upd show ?thesis
    by (simp add: upsert_user_def upsert_write_def Let_def)
qed

lemma fetch_and_upsert_written:
  assumes resp: "http e = Response status (UserJson d)" "is_success status"
    and free: "\<not> list_ex (\<lambda>v. u_id v \<noteq> d_id d \<and> u_username v = d_username d) (rows s)"
  shows "fetch_and_upsert e s
      = (Inr (to_response (row_of e d)),
         s\<lparr>rows := (case query_first (rows s) (d_id d) of
                      Some existing \<Rightarrow>
                        map (\<lambda>v. if u_id v = d_id d then row_of e d else v) (rows s)
                    | None \<Rightarrow> rows s @ [row_of e d]),
           fetch_calls := Suc (fetch_calls s)\<rparr>)"
proof -
  let ?s1 = "s\<lparr>fetch_calls := Suc (fetch_calls s)\<rparr>"
  have free1: "\<not> list_ex (\<lambda>v. u_id v \<noteq> d_id d \<and> u_username v = d_username d) (rows ?s1)"
    using free by simp
  show ?thesis
    by (simp add: fetch_and_upsert_success [OF resp] upsert_user_ok [OF free1]
          split: option.splits)
qed

lemma fetch_and_upsert_conflict:
  assumes resp: "http e = Response status (UserJson d)" "is_success status"
    and taken: "list_ex (\<lambda>v. u_id v \<noteq> d_id d \<and> u_username v = d_username d) (rows s)"
  shows "fetch_and_upsert e s = (Inl IntegrityError, s\<lparr>fetch_calls := Suc (fetch_calls s)\<rparr>)"
proof -
  let ?s1 = "s\<lparr>fetch_calls := Suc (fetch_calls s)\<rparr>"
  have taken1: "list_ex (\<lambda>v. u_id v \<noteq> d_id d \<and> u_username v = d_username d) (rows ?s1)"
    using taken by simp
  show ?thesis
    by (simp add: fetch_and_upsert_success [OF resp] upsert_user_conflict [OF taken1])
qed

text \<open>
  C5. \<open>upsert_user\<close> looks the row up by the payload's id. Provided no row with another
  id holds the payload's username, it succeeds and returns the written row: the
  payload's id, name, username and email, the normalized website, the company name and
  \<open>updated_at\<close> equal to the clock reading; a lookup by that id then finds this row and
  a lookup by any other id finds what it found before. When a row with the id existed,
  that row is replaced in place under its own primary key; when none existed, the new
  row is added. (When another row holds the username, the commit raises and the table
  is unchanged: see the counterexample.)
\<close>

theorem upsert_user_by_id:
  assumes "\<not> list_ex (\<lambda>v. u_id v \<noteq> d_id d \<and> u_username v = d_username d) (rows s)"
  shows "fst (upsert_user e s d) =
           Inr \<lparr>u_id = d_id d, u_name = d_name d, u_username = d_username d,
                u_email = d_email d, u_website = normalize_website (d_website d),
                u_company_name = company_name_of (d_company d),
                u_updated_at = now_upsert_user e\<rparr>
       \<and> query_first (rows (snd (upsert_user e s d))) (d_id d)
           = Some \<lparr>u_id = d_id d, u_name = d_name d, u_username = d_username d,
                   u_email = d_email d, u_website = normalize_website (d_website d),
                   u_company_name = company_name_of (d_company d),
                   u_updated_at = now_upsert_user e\<rparr>
       \<and> (\<forall>i. i \<noteq> d_id d \<longrightarrow>
             query_first (rows (snd (upsert_user e s d))) i = query_first (rows s) i)
       \<and> rows (snd (upsert_user e s d))
           = (case query_first (rows s) (d_id d) of
                Some existing \<Rightarrow>
                  map (\<lambda>v. if u_id v = d_id d then
                              \<lparr>u_id = u_id existing, u_name = d_name d,
                               u_username = d_username d, u_email = d_email d,
                               u_website = normalize_website (d_website d),
                               u_company_name = company_name_of (d_company d),
                               u_updated_at = now_upsert_user e\<rparr>
                            else v) (rows s)
              | None \<Rightarrow>
                  rows s @ [\<lparr>u_id = d_id d, u_name = d_name d, u_username = d_username d,
                             u_email = d_email d, u_website = normalize_website (d_website d),
                             u_company_name = company_name_of (d_company d),
                             u_updated_at = now_upsert_user e\<rparr>])
       \<and> fetch_calls (snd (upsert_user e s d)) = fetch_calls s"
proof -
  have a: "fst (upsert_user e s d) = Inr (row_of e d)"
    by (simp add: upsert_user_ok [OF assms])
  have b: "query_first (rows (snd (upsert_user e s d))) (d_id d) = Some (row_of e d)"
    by (simp add: upsert_user_lookup [OF assms])
  have c: "\<forall>i. i \<noteq> d_id d \<longrightarrow>
             query_first (rows (snd (upsert_user e s d))) i = query_first (rows s) i"
    by (simp add: upsert_user_lookup [OF assms])
  have d: "rows (snd (upsert_user e s d))
           = (case query_first (rows s) (d_id d) of
                Some existing \<Rightarrow>
                  map (\<lambda>v. if u_id v = d_id d then
                              \<lparr>u_id = u_id existing, u_name = d_name d,
                               u_username = d_username d, u_email = d_email d,
                               u_website = normalize_website (d_website d),
                               u_company_name = company_name_of (d_company d),
                               u_updated_at = now_upsert_user e\<rparr>
                            else v) (rows s)
              | None \<Rightarrow>
                  rows s @ [\<lparr>u_id = d_id d, u_name = d_name d, u_username = d_username d,
                             u_email = d_email d, u_website = normalize_website (d_website d),
                             u_company_name = company_name_of (d_company d),
                             u_updated_at = now_upsert_user e\<rparr>])"
    by (auto simp: upsert_user_ok [OF assms] row_of_def
             dest: query_first_Some_id split: option.splits)
  have f: "fetch_calls (snd (upsert_user e s d)) = fetch_calls s"
    by (rule upsert_user_fetch_calls)
  show ?thesis
    using a [unfolded row_of_def] b [unfolded row_of_def] c d f
    by blast
qed

theorem upsert_user_by_id_witness:
  "\<not> list_ex (\<lambda>v. u_id v \<noteq> d_id payload1 \<and> u_username v = d_username payload1)
        (rows (table [stored1 0]))
   \<and> fst (upsert_user (env_at 0 NoResponse) (table [stored1 0]) payload1)
       = Inr \<lparr>u_id = 1, u_name = ''Leanne'', u_username = ''Bret'', u_email = ''l@april.biz'',
              u_website = ''https://hildegard.org'', u_company_name = Some ''Romaguera'',
              u_updated_at = 7\<rparr>
   \<and> rows (snd (upsert_user (env_at 0 NoResponse) (table [stored1 0]) payload1))
       = [\<lparr>u_id = 1, u_name = ''Leanne'', u_username = ''Bret'', u_email = ''l@april.biz'',
           u_website = ''https://hildegard.org'', u_company_name = Some ''Romaguera'',
           u_updated_at = 7\<rparr>]
   \<and> \<not> list_ex (\<lambda>v. u_id v \<noteq> d_id payload1 \<and> u_username v = d_username payload1)
        (rows (table []))
   \<and> rows (snd (upsert_user (env_at 0 NoResponse) (table []) payload1))
       = [\<lparr>u_id = 1, u_name = ''Leanne'', u_username = ''Bret'', u_email = ''l@april.biz'',
           u_website = ''https://hildegard.org'', u_company_name = Some ''Romaguera'',
           u_updated_at = 7\<rparr>]"
proof -
  have h1: "\<not> list_ex (\<lambda>v. u_id v \<noteq> d_id payload1 \<and> u_username v = d_username payload1)
        (rows (table [stored1 0]))"
    by simp
  have h2: "\<not> list_ex (\<lambda>v. u_id v \<noteq> d_id payload1 \<and> u_username v = d_username payload1)
        (rows (table []))"
    by simp
  from h1 h2
    upsert_user_by_id [OF h1, of "env_at 0 NoResponse"]
    upsert_user_by_id [OF h2, of "env_at 0 NoResponse"]
  show ?thesis
    by (simp add: query_first_def normalize_website_def startswith_def company_name_of_def)
qed

theorem upsert_user_username_conflict_counterexample:
  "query_first (rows (table [stored2])) (d_id payload1) = None
   \<and> upsert_user (env_at 0 NoResponse) (table [stored2]) payload1
       = (Inl IntegrityError, table [stored2])"
  by (simp add: upsert_user_def upsert_write_def query_first_def commit_insert_def
        row_of_def Let_def)

text \<open>
  C3. When the lookup found no row but a row with the payload's id is in the table by
  the time the insert is committed, \<open>upsert_user\<close> does not resolve the conflict: the
  \<open>IntegrityError\<close> of the insert reaches the caller, and the table, with the other
  writer's row, is left as it is.
\<close>

theorem upsert_write_duplicate_insert_raises:
  assumes "query_first (rows s0) (d_id d) = None"
    and "query_first (rows s1) (d_id d) = Some other"
  shows "upsert_write e (query_first (rows s0) (d_id d)) s1 d = (Inl IntegrityError, s1)"
proof -
  have "list_ex (\<lambda>v. u_id v = u_id (row_of e d)) (rows s1)"
    using assms(2) query_first_None_iff [of "rows s1" "d_id d"] by (simp add: row_of_def)
  then have "commit_insert (rows s1) (row_of e d) = Inl IntegrityError"
    by (simp add: commit_insert_def)
  with assms(1) show ?thesis
    by (simp add: upsert_write_def Let_def)
qed

theorem upsert_write_duplicate_insert_raises_witness:
  "query_first (rows (table [])) (d_id payload1) = None
   \<and> query_first (rows (table [stored2, stored1 9])) (d_id payload1) = Some (stored1 9)
   \<and> upsert_write (env_at 20 NoResponse) (query_first (rows (table [])) (d_id payload1))
        (table [stored2, stored1 9]) payload1
       = (Inl IntegrityError, table [stored2, stored1 9])"
proof -
  have h0: "query_first (rows (table [])) (d_id payload1) = None"
    by (simp add: query_first_def)
  have h1: "query_first (rows (table [stored2, stored1 9])) (d_id payload1) = Some (stored1 9)"
    by (simp add: query_first_def)
  from h0 h1 upsert_write_duplicate_insert_raises [OF h0 h1, of "env_at 20 NoResponse"]
  show ?thesis by blast
qed

theorem upsert_write_duplicate_insert_counterexample:
  "query_first (rows (table [])) (d_id payload1) = None
   \<and> query_first (rows (table [stored1 3])) (d_id payload1) = Some (stored1 3)
   \<and> upsert_write (env_at 0 NoResponse) (query_first (rows (table [])) (d_id payload1))
        (table [stored1 3]) payload1
       = (Inl IntegrityError, table [stored1 3])"
  by (simp add: upsert_write_def query_first_def commit_insert_def row_of_def Let_def)

section \<open>What the staleness check reads\<close>

text \<open>
  C9. The staleness check takes the timestamp only; the current time and the TTL are
  read from the clock and the configuration during the call. Its answer is determined
  by the timestamp, that clock reading and the configured TTL, and by nothing else: the
  upstream server and the clock reading of the upsert do not matter, and the check
  returns no state. Two calls with the same timestamp at different clock readings can
  differ.
\<close>

theorem is_cache_stale_depends_only_on:
  assumes "now_is_cache_stale e1 = now_is_cache_stale e2"
    and "CACHE_DURATION_MINUTES e1 = CACHE_DURATION_MINUTES e2"
  shows "is_cache_stale e1 updated_at = is_cache_stale e2 updated_at"
  using assms by (cases updated_at) (simp_all add: is_cache_stale_def)

theorem is_cache_stale_depends_only_on_witness:
  "now_is_cache_stale (env_at 5 NoResponse)
     = now_is_cache_stale ((env_at 5 (Response 200 NotJson))\<lparr>now_upsert_user := 99\<rparr>)
   \<and> CACHE_DURATION_MINUTES (env_at 5 NoResponse)
     = CACHE_DURATION_MINUTES ((env_at 5 (Response 200 NotJson))\<lparr>now_upsert_user := 99\<rparr>)
   \<and> is_cache_stale (env_at 5 NoResponse) (Some 1)
     = is_cache_stale ((env_at 5 (Response 200 NotJson))\<lparr>now_upsert_user := 99\<rparr>) (Some 1)"
proof -
  have h1: "now_is_cache_stale (env_at 5 NoResponse)
     = now_is_cache_stale ((env_at 5 (Response 200 NotJson))\<lparr>now_upsert_user := 99\<rparr>)"
    by simp
  have h2: "CACHE_DURATION_MINUTES (env_at 5 NoResponse)
     = CACHE_DURATION_MINUTES ((env_at 5 (Response 200 NotJson))\<lparr>now_upsert_user := 99\<rparr>)"
    by simp
  from h1 h2 is_cache_stale_depends_only_on [OF h1 h2, of "Some 1"]
  show ?thesis by blast
qed

theorem is_cache_stale_reads_clock_counterexample:
  "is_cache_stale (env_at 0 NoResponse) (Some 0)
     \<noteq> is_cache_stale (env_at 600000001 NoResponse) (Some 0)"
  by (simp add: is_cache_stale_def timedelta_minutes_def)

section \<open>Refresh\<close>

text \<open>
  C4. \<open>refresh_user\<close> and \<open>get_user\<close> with the bypass on give the same result and
  leave the same state, for every state, environment and id, and each of them does the
  whole cycle whatever the table holds: exactly one request is sent; when the fetch
  fails, that error is the result and the table is as it was; when the fetch yields a
  payload, the row built from it (website normalized, company name extracted,
  \<open>updated_at\<close> the clock reading) replaces the row with the payload's id or is added,
  and the result is the view of that row, unless another row holds the payload's
  username, in which case the commit raises and the table is as it was.
\<close>

theorem refresh_user_eq_get_user_bypass:
  "refresh_user e s user_id = get_user e s user_id True
   \<and> (\<forall>r. r = refresh_user e s user_id \<or> r = get_user e s user_id True \<longrightarrow>
         fetch_calls (snd r) = Suc (fetch_calls s)
         \<and> (\<forall>err. fst (fetch_from_upstream e s) = Inl err \<longrightarrow>
                r = (Inl err, s\<lparr>fetch_calls := Suc (fetch_calls s)\<rparr>))
         \<and> (\<forall>status d. http e = Response status (UserJson d) \<and> is_success status \<longrightarrow>
               (if list_ex (\<lambda>v. u_id v \<noteq> d_id d \<and> u_username v = d_username d) (rows s)
                then r = (Inl IntegrityError, s\<lparr>fetch_calls := Suc (fetch_calls s)\<rparr>)
                else r =
                  (Inr \<lparr>r_name = d_name d, r_username = d_username d, r_email = d_email d,
                        r_website = normalize_website (d_website d),
                        r_companyName = (case company_name_of (d_company d) of
                                           None \<Rightarrow> [] | Some c \<Rightarrow> c)\<rparr>,
                   s\<lparr>rows :=
                      (case query_first (rows s) (d_id d) of
                         Some existing \<Rightarrow>
                           map (\<lambda>v. if u_id v = d_id d then
                                  \<lparr>u_id = d_id d, u_name = d_name d,
                                   u_username = d_username d, u_email = d_email d,
                                   u_website = normalize_website (d_website d),
                                   u_company_name = company_name_of (d_company d),
                                   u_updated_at = now_upsert_user e\<rparr>
                                else v) (rows s)
                       | None \<Rightarrow>
                           rows s @ [\<lparr>u_id = d_id d, u_name = d_name d,
                                      u_username = d_username d, u_email = d_email d,
                                      u_website = normalize_website (d_website d),
                                      u_company_name = company_name_of (d_company d),
                                      u_updated_at = now_upsert_user e\<rparr>]),
                     fetch_calls := Suc (fetch_calls s)\<rparr>))))"
proof -
  have g: "get_user e s user_id True = fetch_and_upsert e s"
    by (simp add: get_user_def split: option.splits)
  have r: "refresh_user e s user_id = fetch_and_upsert e s"
    by (simp add: refresh_user_def)
  have c: "fetch_calls (snd (fetch_and_upsert e s)) = Suc (fetch_calls s)"
    by (rule fetch_and_upsert_fetch_calls)
  have f: "\<forall>err. fst (fetch_from_upstream e s) = Inl err \<longrightarrow>
             fetch_and_upsert e s = (Inl err, s\<lparr>fetch_calls := Suc (fetch_calls s)\<rparr>)"
    by (simp add: fetch_and_upsert_failure)
  have u: "\<forall>status d. http e = Response status (UserJson d) \<and> is_success status \<longrightarrow>
        (if list_ex (\<lambda>v. u_id v \<noteq> d_id d \<and> u_username v = d_username d) (rows s)
         then fetch_and_upsert e s = (Inl IntegrityError, s\<lparr>fetch_calls := Suc (fetch_calls s)\<rparr>)
         else fetch_and_upsert e s
            = (Inr (to_response (row_of e d)),
               s\<lparr>rows := (case query_first (rows s) (d_id d) of
                            Some existing \<Rightarrow>
                              map (\<lambda>v. if u_id v = d_id d then row_of e d else v) (rows s)
                          | None \<Rightarrow> rows s @ [row_of e d]),
                 fetch_calls := Suc (fetch_calls s)\<rparr>))"
    by (simp add: fetch_and_upsert_written fetch_and_upsert_conflict)
  have v: "to_response (row_of e d) =
             \<lparr>r_name = d_name d, r_username = d_username d, r_email = d_email d,
              r_website = normalize_website (d_website d),
              r_companyName = (case company_name_of (d_company d) of
                                 None \<Rightarrow> [] | Some c \<Rightarrow> c)\<rparr>" for d
    by (simp add: to_response_def row_of_def)
  have w: "row_of e d =
             \<lparr>u_id = d_id d, u_name = d_name d, u_username = d_username d,
              u_email = d_email d, u_website = normalize_website (d_website d),
              u_company_name = company_name_of (d_company d),
              u_updated_at = now_upsert_user e\<rparr>" for d
    by (simp add: row_of_def)
  note u' = u [unfolded v, unfolded w]
  show ?thesis
    unfolding g r using c f u' by auto
qed

theorem refresh_user_eq_get_user_bypass_witness:
  "\<not> is_cache_stale (env_at 9 (Response 200 (UserJson payload1)))
        (Some (u_updated_at (stored1 0)))
   \<and> http (env_at 9 (Response 200 (UserJson payload1))) = Response 200 (UserJson payload1)
   \<and> is_success 200
   \<and> refresh_user (env_at 9 (Response 200 (UserJson payload1))) (table [stored1 0]) 1
       = (Inr \<lparr>r_name = ''Leanne'', r_username = ''Bret'', r_email = ''l@april.biz'',
               r_website = ''https://hildegard.org'', r_companyName = ''Romaguera''\<rparr>,
          \<lparr>rows = [\<lparr>u_id = 1, u_name = ''Leanne'', u_username = ''Bret'',
                     u_email = ''l@april.biz'', u_website = ''https://hildegard.org'',
                     u_company_name = Some ''Romaguera'', u_updated_at = 16\<rparr>],
            fetch_calls = 1\<rparr>)
   \<and> get_user (env_at 9 (Response 200 (UserJson payload1))) (table [stored1 0]) 1 True
       = (Inr \<lparr>r_name = ''Leanne'', r_username = ''Bret'', r_email = ''l@april.biz'',
               r_website = ''https://hildegard.org'', r_companyName = ''Romaguera''\<rparr>,
          \<lparr>rows = [\<lparr>u_id = 1, u_name = ''Leanne'', u_username = ''Bret'',
                     u_email = ''l@april.biz'', u_website = ''https://hildegard.org'',
                     u_company_name = Some ''Romaguera'', u_updated_at = 16\<rparr>],
            fetch_calls = 1\<rparr>)
   \<and> fst (fetch_from_upstream (env_at 9 (Response 404 WrongShape)) (table [stored1 0]))
       = Inl HTTPStatusError
   \<and> get_user (env_at 9 (Response 404 WrongShape)) (table [stored1 0]) 1 True
       = (Inl HTTPStatusError, \<lparr>rows = [stored1 0], fetch_calls = 1\<rparr>)"
proof -
  let ?e = "env_at 9 (Response 200 (UserJson payload1))"
  let ?f = "env_at 9 (Response 404 WrongShape)"
  let ?s = "table [stored1 0]"
  have fresh: "\<not> is_cache_stale ?e (Some (u_updated_at (stored1 0)))"
    by (simp add: is_cache_stale_def timedelta_minutes_def)
  have h: "http ?e = Response 200 (UserJson payload1)" by simp
  have ok: "is_success 200" by (simp add: is_success_def)
  have free: "\<not> list_ex (\<lambda>v. u_id v \<noteq> d_id payload1 \<and> u_username v = d_username payload1)
        (rows ?s)"
    by simp
  have bad: "fst (fetch_from_upstream ?f ?s) = Inl HTTPStatusError"
    by (simp add: fetch_from_upstream_def is_success_def)
  note eq = refresh_user_eq_get_user_bypass [of ?e ?s 1, THEN conjunct1]
  note t = refresh_user_eq_get_user_bypass
             [of ?e ?s 1, THEN conjunct2, THEN spec, of "refresh_user ?e ?s 1"]
  note t' = refresh_user_eq_get_user_bypass
              [of ?f ?s 1, THEN conjunct2, THEN spec, of "get_user ?f ?s 1 True"]
  have a: "refresh_user ?e ?s 1
       = (Inr \<lparr>r_name = ''Leanne'', r_username = ''Bret'', r_email = ''l@april.biz'',
               r_website = ''https://hildegard.org'', r_companyName = ''Romaguera''\<rparr>,
          \<lparr>rows = [\<lparr>u_id = 1, u_name = ''Leanne'', u_username = ''Bret'',
                     u_email = ''l@april.biz'', u_website = ''https://hildegard.org'',
                     u_company_name = Some ''Romaguera'', u_updated_at = 16\<rparr>],
            fetch_calls = 1\<rparr>)"
    using t h ok free
    by (simp add: query_first_def normalize_website_def startswith_def company_name_of_def)
  have b: "get_user ?e ?s 1 True = refresh_user ?e ?s 1"
    using eq by simp
  have c: "get_user ?f ?s 1 True = (Inl HTTPStatusError, \<lparr>rows = [stored1 0], fetch_calls = 1\<rparr>)"
    using t' bad by simp
  from fresh h ok bad a b c show ?thesis by simp
qed

section \<open>The key of the miss path\<close>

text \<open>
  C10. On the miss path, when the fetch yields a payload, \<open>get_user\<close> upserts under the
  payload's id, whatever id was requested. If no row with another id holds the payload's
  username, the response is the view of the payload, a lookup by the payload's id finds
  the row written from it, and a lookup by any other id, the requested one included,
  finds what it found before. If another row holds the username, the commit raises
  \<open>IntegrityError\<close> and the table is as it was: no row is created, updated or returned.
\<close>

theorem get_user_keyed_by_payload_id:
  assumes miss: "query_first (rows s) user_id = None \<or> bypass_cache
        \<or> (\<exists>user. query_first (rows s) user_id = Some user
               \<and> is_cache_stale e (Some (u_updated_at user)))"
    and resp: "http e = Response status (UserJson d)" "is_success status"
  shows "if list_ex (\<lambda>v. u_id v \<noteq> d_id d \<and> u_username v = d_username d) (rows s)
         then get_user e s user_id bypass_cache
                = (Inl IntegrityError, s\<lparr>fetch_calls := Suc (fetch_calls s)\<rparr>)
         else fst (get_user e s user_id bypass_cache) =
                Inr \<lparr>r_name = d_name d, r_username = d_username d, r_email = d_email d,
                     r_website = normalize_website (d_website d),
                     r_companyName = (case company_name_of (d_company d) of
                                        None \<Rightarrow> [] | Some c \<Rightarrow> c)\<rparr>
            \<and> query_first (rows (snd (get_user e s user_id bypass_cache))) (d_id d)
                = Some \<lparr>u_id = d_id d, u_name = d_name d, u_username = d_username d,
                        u_email = d_email d, u_website = normalize_website (d_website d),
                        u_company_name = company_name_of (d_company d),
                        u_updated_at = now_upsert_user e\<rparr>
            \<and> (\<forall>i. i \<noteq> d_id d \<longrightarrow>
                  query_first (rows (snd (get_user e s user_id bypass_cache))) i
                    = query_first (rows s) i)"
proof (cases "list_ex (\<lambda>v. u_id v \<noteq> d_id d \<and> u_username v = d_username d) (rows s)")
  case True
  have g: "get_user e s user_id bypass_cache = fetch_and_upsert e s"
    using miss by (auto simp: get_user_def split: option.splits)
  from True show ?thesis
    by (simp add: g fetch_and_upsert_conflict [OF resp True])
next
  case free: False
  let ?s1 = "s\<lparr>fetch_calls := Suc (fetch_calls s)\<rparr>"
  have g: "get_user e s user_id bypass_cache = fetch_and_upsert e s"
    using miss by (auto simp: get_user_def split: option.splits)
  have free1: "\<not> list_ex (\<lambda>v. u_id v \<noteq> d_id d \<and> u_username v = d_username d) (rows ?s1)"
    using free by simp
  have f: "fetch_and_upsert e s
      = (Inr (to_response (row_of e d)), snd (upsert_user e ?s1 d))"
    by (simp add: fetch_and_upsert_success [OF resp] upsert_user_ok [OF free1])
  have l: "\<And>i. query_first (rows (snd (upsert_user e ?s1 d))) i
           = (if i = d_id d then Some (row_of e d) else query_first (rows s) i)"
    using upsert_user_lookup [OF free1] by simp
  from free show ?thesis
    by (simp add: g f l) (simp add: to_response_def row_of_def)
qed

theorem get_user_keyed_by_payload_id_witness:
  "query_first (rows (table [])) 2 = None
   \<and> http (env_at 0 (Response 200 (UserJson payload1))) = Response 200 (UserJson payload1)
   \<and> is_success 200
   \<and> fst (get_user (env_at 0 (Response 200 (UserJson payload1))) (table []) 2 False)
       = Inr \<lparr>r_name = ''Leanne'', r_username = ''Bret'', r_email = ''l@april.biz'',
              r_website = ''https://hildegard.org'', r_companyName = ''Romaguera''\<rparr>
   \<and> query_first (rows (snd (get_user (env_at 0 (Response 200 (UserJson payload1)))
                               (table []) 2 False))) 1
       = Some \<lparr>u_id = 1, u_name = ''Leanne'', u_username = ''Bret'', u_email = ''l@april.biz'',
               u_website = ''https://hildegard.org'', u_company_name = Some ''Romaguera'',
               u_updated_at = 7\<rparr>
   \<and> query_first (rows (snd (get_user (env_at 0 (Response 200 (UserJson payload1)))
                               (table []) 2 False))) 2 = None
   \<and> query_first (rows (table [stored2])) 7 = None
   \<and> get_user (env_at 0 (Response 200 (UserJson payload1))) (table [stored2]) 7 True
       = (Inl IntegrityError, \<lparr>rows = [stored2], fetch_calls = 1\<rparr>)"
proof -
  let ?e = "env_at 0 (Response 200 (UserJson payload1))"
  have m: "query_first (rows (table [])) 2 = None \<or> False
        \<or> (\<exists>user. query_first (rows (table [])) 2 = Some user
               \<and> is_cache_stale ?e (Some (u_updated_at user)))"
    by (simp add: query_first_def)
  have m': "query_first (rows (table [stored2])) 7 = None \<or> True
        \<or> (\<exists>user. query_first (rows (table [stored2])) 7 = Some user
               \<and> is_cache_stale ?e (Some (u_updated_at user)))"
    by simp
  have r: "http ?e = Response 200 (UserJson payload1)" by simp
  have ok: "is_success 200" by (simp add: is_success_def)
  have n: "query_first (rows (table [])) 2 = None" by (simp add: query_first_def)
  have n': "query_first (rows (table [stored2])) 7 = None" by (simp add: query_first_def)
  from get_user_keyed_by_payload_id [OF m r ok] get_user_keyed_by_payload_id [OF m' r ok]
    n n' r ok
  show ?thesis
    by (simp add: normalize_website_def startswith_def company_name_of_def)
qed

theorem get_user_username_conflict_counterexample:
  "query_first (rows (table [stored2])) 2 = Some stored2
   \<and> is_cache_stale (env_at 600000006 (Response 200 (UserJson payload1)))
        (Some (u_updated_at stored2))
   \<and> get_user (env_at 600000006 (Response 200 (UserJson payload1))) (table [stored2]) 2 False
       = (Inl IntegrityError, \<lparr>rows = [stored2], fetch_calls = 1\<rparr>)
   \<and> query_first
        (rows (snd (get_user (env_at 600000006 (Response 200 (UserJson payload1)))
                      (table [stored2]) 2 False))) (d_id payload1) = None"
  by (simp add: get_user_def query_first_def is_cache_stale_def timedelta_minutes_def
        fetch_and_upsert_def fetch_from_upstream_def is_success_def upsert_user_def
        upsert_write_def commit_insert_def row_of_def Let_def)

end
